theory Spec2Isabelle
  imports Main
begin

section \<open>Errors\<close>

text \<open>
  The exceptions the modelled code raises or lets pass.  Every constructor stands for an
  instance of Python's \<open>Exception\<close> class: \<open>JobDescriptionError\<close>,
  \<open>PipelineDescriptionError\<close> and \<open>WorkflowNextStepError\<close> come from \<open>tmlib.errors\<close>,
  \<open>IndexError\<close>, \<open>KeyError\<close>, \<open>ValueError\<close> and \<open>AttributeError\<close> are the built-in
  ones raised by list indexing, dictionary lookup, \<open>list.index\<close> and attribute access on
  \<open>None\<close>, and \<open>OtherError msg\<close> is any other \<open>Exception\<close> raised by a collaborator
  (module import, argument parsing, a command line class).
\<close>

datatype error =
    JobDescriptionError
  | PipelineDescriptionError
  | WorkflowNextStepError
  | IndexError
  | KeyError
  | ValueError
  | AttributeError
  | OtherError string

section \<open>Batches of the run phase (\<open>tmlib/workflow/jterator/api.py\<close>)\<close>

text \<open>
  A job description as \<open>create_run_batches\<close> yields it: the dictionary with the keys
  \<open>id\<close>, \<open>site_ids\<close> and \<open>plot\<close>.
\<close>

record batch =
  batch_id :: int
  site_ids :: "int list"
  plot :: bool

text \<open>
  Modelled from the spec: \<open>_create_batches\<close>, which \<open>ImageAnalysisPipelineEngine\<close>
  inherits from \<open>WorkflowStepAPI\<close> (\<open>tmlib/workflow/api.py\<close>, not among the sources).
  The spec: the partitioner "splits \<open>unit_ids\<close> into contiguous groups of at most
  \<open>batch_size\<close>, preserving the original ordering", and five units with batch size two
  give groups of two, two and one.  So for a batch size of at least one the groups are
  cut off the front, each full but possibly the last.  For a batch size below one the
  spec fixes no grouping; what the partitioner returns there is the parameter
  \<open>degenerate\<close>.
\<close>

function create_batches ::
  "('a list \<Rightarrow> int \<Rightarrow> 'a list list) \<Rightarrow> 'a list \<Rightarrow> int \<Rightarrow> 'a list list" where
  "create_batches degenerate li n =
     (if n < 1 then degenerate li n
      else if li = [] then []
      else take (nat n) li # create_batches degenerate (drop (nat n) li) n)"
  by pat_completeness auto
termination
  by (relation "measure (\<lambda>(d, li, n). length li)") auto

declare create_batches.simps [simp del]

text \<open>
  \<open>create_run_batches\<close> is a generator: its result is the list of the job descriptions
  it yields, in order, and the exception that ended it, if any.  The argument
  \<open>sites\<close> is the result of the query \<open>session.query(tm.Site.id).order_by(tm.Site.id)\<close>,
  as the code receives it.  The query for the image file locations of each batch has no
  part in what is yielded and is left out.
\<close>

definition create_run_batches ::
  "(int list \<Rightarrow> int \<Rightarrow> int list list) \<Rightarrow> int list \<Rightarrow> bool \<Rightarrow> int \<Rightarrow> batch list \<times> error option" where
  "create_run_batches degenerate sites args_plot args_batch_size =
     (if args_plot \<and> args_batch_size \<noteq> 1 then ([], Some JobDescriptionError)
      else
        let batches = create_batches degenerate sites args_batch_size
        in (map (\<lambda>(j, b). \<lparr>batch_id = int j + 1, site_ids = b, plot = args_plot\<rparr>)
              (enumerate 0 batches), None))"

section \<open>Building the pipeline (\<open>ImageAnalysisPipelineEngine.pipeline\<close>)\<close>

text \<open>
  An element of \<open>project.pipe.description.pipeline\<close> with the two attributes the
  property reads, an entry of \<open>project.handles\<close>, and the \<open>ImageAnalysisModule\<close>
  built from them.  The handles description itself is not inspected: its type is \<open>'h\<close>.
\<close>

record pipeline_element =
  active :: bool
  source :: string

record 'h handles_entry =
  handles_name :: string
  handles_description :: 'h

record 'h image_analysis_module =
  m_name :: string
  m_source_file :: string
  m_handles :: 'h

text \<open>
  What \<open>os.path\<close> reads from the process environment and the file system:
  \<open>os.path.expandvars\<close>, \<open>os.path.expanduser\<close> and \<open>os.path.exists\<close>.
\<close>

record os_path =
  expandvars :: "string \<Rightarrow> string"
  expanduser :: "string \<Rightarrow> string"
  path_exists :: "string \<Rightarrow> bool"

text \<open>\<open>os.path.isabs\<close> and \<open>os.path.join\<close> of two paths, as \<open>posixpath\<close> defines them.\<close>

definition isabs :: "string \<Rightarrow> bool" where
  "isabs s = (case s of [] \<Rightarrow> False | c # _ \<Rightarrow> c = CHR ''/'')"

definition path_join :: "string \<Rightarrow> string \<Rightarrow> string" where
  "path_join a b =
     (if isabs b then b
      else if a = [] \<or> last a = CHR ''/'' then a @ b
      else a @ ''/'' @ b)"

text \<open>Lines 108 to 117: the source file of an active element.\<close>

definition resolve_source :: "os_path \<Rightarrow> string \<Rightarrow> string \<Rightarrow> error + string" where
  "resolve_source os step_location source_file =
     (if CHR ''/'' \<in> set source_file then
        let s1 = expandvars os source_file;
            s2 = expanduser os s1;
            s3 = (if \<not> isabs s2 then path_join step_location s2 else s2)
        in if \<not> path_exists os s3 then Inl PipelineDescriptionError else Inr s3
      else Inr source_file)"

text \<open>
  The loop over \<open>enumerate(self.project.pipe.description.pipeline)\<close>, with the list
  \<open>pipeline\<close> built so far.  \<open>self.project.handles[i]\<close> raises \<open>IndexError\<close> beyond the
  end of the list.
\<close>

fun pipeline_loop ::
  "os_path \<Rightarrow> string \<Rightarrow> 'h handles_entry list \<Rightarrow> (nat \<times> pipeline_element) list \<Rightarrow>
   'h image_analysis_module list \<Rightarrow> error + 'h image_analysis_module list" where
  "pipeline_loop os step_location handles [] pipeline = Inr pipeline"
| "pipeline_loop os step_location handles ((i, element) # rest) pipeline =
     (if \<not> active element then pipeline_loop os step_location handles rest pipeline
      else
        case resolve_source os step_location (source element) of
          Inl e \<Rightarrow> Inl e
        | Inr source_file \<Rightarrow>
            if i < length handles then
              pipeline_loop os step_location handles rest
                (pipeline @ [\<lparr>m_name = handles_name (handles ! i),
                               m_source_file = source_file,
                               m_handles = handles_description (handles ! i)\<rparr>])
            else Inl IndexError)"

definition pipeline ::
  "os_path \<Rightarrow> string \<Rightarrow> pipeline_element list \<Rightarrow> 'h handles_entry list \<Rightarrow>
   error + 'h image_analysis_module list" where
  "pipeline os step_location description handles =
     pipeline_loop os step_location handles (enumerate 0 description) []"

section \<open>Saving the outputs of a pipeline run (\<open>_save_pipeline_outputs\<close>)\<close>

text \<open>
  The entries of \<open>store['objects']\<close> with the attributes the save phase reads, and the
  items of \<open>description.output.objects\<close> and \<open>description.input.objects\<close>.  The code
  reads the attribute \<open>name\<close> of an input object description (in
  \<open>_load_pipeline_input\<close>): the elements of \<open>input.objects\<close> are description objects,
  not strings.
\<close>

record segmented_objects =
  save :: bool
  represent_as_polygons :: bool
  labels :: "nat list"

record object_output =
  output_name :: string
  as_polygons :: bool

record object_input =
  input_name :: string

text \<open>
  The calls on the database connection that the second half of the save phase makes for
  one object type, in order: \<open>tm.Mapobject.delete_cascade\<close> for a mapobject type and the
  site, \<open>tm.Mapobject.add_multiple\<close> with one mapobject for each label,
  \<open>tm.MapobjectSegmentation.add_multiple\<close> and \<open>tm.FeatureValues.add_multiple\<close>.
  The geometries and the measurement tables are not part of the model.
\<close>

datatype db_call =
    Mapobject_delete_cascade nat int
  | Mapobject_add_multiple nat nat
  | MapobjectSegmentation_add_multiple nat
  | FeatureValues_add_multiple nat

text \<open>
  Lines 378 to 381: \<open>store['objects'][item.name]\<close> is marked for saving; a name that is
  not a key of the dictionary raises \<open>KeyError\<close>.  The dictionary is an association list
  with distinct keys; the loops over it follow the list.
\<close>

fun mark_outputs ::
  "object_output list \<Rightarrow> (string \<times> segmented_objects) list \<Rightarrow>
   error + (string \<times> segmented_objects) list" where
  "mark_outputs [] objects = Inr objects"
| "mark_outputs (item # items) objects =
     (if output_name item \<notin> fst ` set objects then Inl KeyError
      else mark_outputs items
             (map (\<lambda>(k, v). if k = output_name item
                              then (k, v\<lparr>save := True, represent_as_polygons := as_polygons item\<rparr>)
                              else (k, v)) objects))"

text \<open>
  Line 444, \<open>obj_name not in inputs\<close>, with \<open>inputs = description.input.objects\<close>:
  Python compares the string \<open>obj_name\<close> with each description object by \<open>==\<close>.
  The class of these objects (\<open>tmlib/workflow/jterator/description.py\<close>) is not among
  the sources, so the outcome of \<open>==\<close> between a string and a description object is the
  parameter \<open>str_eq\<close>.  For a class that does not define \<open>__eq__\<close>, Python's
  default, a string never equals such an object: \<open>default_eq\<close>.
\<close>

definition default_eq :: "string \<Rightarrow> object_input \<Rightarrow> bool" where
  "default_eq s d = False"

definition name_in_inputs ::
  "(string \<Rightarrow> object_input \<Rightarrow> bool) \<Rightarrow> string \<Rightarrow> object_input list \<Rightarrow> bool" where
  "name_in_inputs str_eq obj_name inputs = list_ex (str_eq obj_name) inputs"

text \<open>Lines 438 to 562 for one object type that is saved.\<close>

definition save_object ::
  "(string \<Rightarrow> object_input \<Rightarrow> bool) \<Rightarrow> (string \<Rightarrow> nat) \<Rightarrow> object_input list \<Rightarrow> int \<Rightarrow>
   string \<times> segmented_objects \<Rightarrow> db_call list" where
  "save_object str_eq mapobject_type_ids inputs site_id entry =
     (case entry of (obj_name, segm_objs) \<Rightarrow>
        (if \<not> name_in_inputs str_eq obj_name inputs
         then [Mapobject_delete_cascade (mapobject_type_ids obj_name) site_id] else [])
        @ [Mapobject_add_multiple (mapobject_type_ids obj_name) (length (labels segm_objs)),
           MapobjectSegmentation_add_multiple (mapobject_type_ids obj_name),
           FeatureValues_add_multiple (mapobject_type_ids obj_name)])"

text \<open>
  The save phase: the outputs are marked, the entries with \<open>save\<close> set are collected in
  \<open>objects_to_save\<close>, and each of them is written.  \<open>mapobject_type_ids\<close> is the
  dictionary the first half fills from \<open>session.get_or_create(tm.MapobjectType, ...)\<close>.
  The result is the list of the calls on the connection.
\<close>

definition save_pipeline_outputs ::
  "(string \<Rightarrow> object_input \<Rightarrow> bool) \<Rightarrow> (string \<Rightarrow> nat) \<Rightarrow> object_input list \<Rightarrow>
   object_output list \<Rightarrow> int \<Rightarrow> (string \<times> segmented_objects) list \<Rightarrow> error + db_call list" where
  "save_pipeline_outputs str_eq mapobject_type_ids inputs objects_output site_id objects =
     (case mark_outputs objects_output objects of
        Inl e \<Rightarrow> Inl e
      | Inr marked \<Rightarrow>
          let objects_to_save = filter (\<lambda>(obj_name, segm_objs). save segm_objs) marked
          in Inr (concat (map (save_object str_eq mapobject_type_ids inputs site_id)
                    objects_to_save)))"

section \<open>Names of the aggregate features (\<open>_aggregate\<close>)\<close>

text \<open>
  The keys of the dictionary \<open>statistics\<close> (lines 692 to 695), and the name that lines
  705 to 713 give the aggregate of one feature column for one statistic.
\<close>

definition statistics :: "string list" where
  "statistics = [''Min'', ''Max'', ''Sum'', ''Mean'', ''Count'']"

definition agg_feature_name :: "string \<Rightarrow> string \<Rightarrow> string \<Rightarrow> string" where
  "agg_feature_name stat_name feature_name mapobject_type_name =
     (if stat_name = ''count'' then mapobject_type_name @ ''_'' @ stat_name
      else feature_name @ ''_'' @ mapobject_type_name @ ''_'' @ stat_name)"

text \<open>
  The names one record gives rise to: the loop over the statistics, and inside it the
  loop over the feature columns.
\<close>

definition agg_feature_names :: "string list \<Rightarrow> string \<Rightarrow> string list" where
  "agg_feature_names feature_names mapobject_type_name =
     concat (map (\<lambda>stat_name.
                    map (\<lambda>feature_name.
                           agg_feature_name stat_name feature_name mapobject_type_name)
                      feature_names)
               statistics)"

section \<open>The feature catalog (\<open>_add_feature\<close>)\<close>

text \<open>
  The table \<open>features\<close>: its rows and the sequence behind the column \<open>id\<close>.  The
  constraint \<open>features_name_mapobject_type_id_key\<close> that the statement names is the
  uniqueness of the pair of \<open>name\<close> and \<open>mapobject_type_id\<close>.
\<close>

record feature =
  feature_id :: nat
  feature_name :: string
  is_aggregate :: bool
  mapobject_type_id :: nat

record features_table =
  rows :: "feature list"
  next_id :: nat


definition features_name_mapobject_type_id_key :: "features_table \<Rightarrow> bool" where
  "features_name_mapobject_type_id_key t =
     distinct (map (\<lambda>r. (feature_name r, mapobject_type_id r)) (rows t))"





section \<open>The workflow manager (\<open>tmlib/tmaps/workflow.py\<close>)\<close>

text \<open>The states of \<open>gc3libs.Run.State\<close>.\<close>

datatype run_state = NEW | SUBMITTED | RUNNING | STOPPED | TERMINATING | TERMINATED | UNKNOWN

text \<open>
  An instance of the command line class of a step, as \<open>_create_jobs_for_step\<close> uses it:
  the properties \<open>required_inputs\<close> and \<open>expected_outputs\<close>, the exception that calling
  the method named by \<open>args.method_name\<close> raises, if any, and the property \<open>jobs\<close>,
  which gives the job collection of the step or raises.
\<close>

record 'task cli =
  required_inputs :: "string list"
  cli_expected_outputs :: "string list"
  method_raises :: "error option"
  jobs :: "error + 'task"

text \<open>
  The attributes of a \<open>ClusterWorkflowManager\<close>.  \<open>stopped\<close> is the private attribute
  \<open>__stopped\<close>; \<open>exitcode\<close> is \<open>None\<close> until it is assigned.
\<close>

record 'task manager =
  tasks :: "'task list"
  expected_outputs :: "string list list"
  exitcode :: "int option"
  stopped :: bool
  virtualenv :: string
  verbosity :: int

text \<open>
  What the manager reads from outside itself during one call: the file system
  (\<open>os.path.exists\<close>), the property \<open>workflow_description\<close> (the steps of the workflow
  file, each split into words), the command line class of a program instantiated on a
  command (the two imports, \<open>parser.parse_args\<close> and the constructor, any of which may
  raise), and \<open>SequentialTaskCollection.next\<close> of gc3libs.
\<close>

record 'task environment =
  filesystem :: os_path
  workflow_description :: "string list list"
  cli_class_inst :: "string \<Rightarrow> string list \<Rightarrow> error + 'task cli"
  super_next :: "'task manager \<Rightarrow> nat \<Rightarrow> run_state"

text \<open>
  \<open>_create_jobs_for_step\<close>.  \<open>step_desciption[0]\<close> raises \<open>IndexError\<close> on an empty
  step, and \<open>init_command.index('init')\<close> raises \<open>ValueError\<close> when the word is absent.
  The result is the job collection or the exception, and the manager, whose
  \<open>expected_outputs\<close> have grown once the required inputs were found and the method ran.
\<close>

definition create_jobs_for_step ::
  "'task environment \<Rightarrow> 'task manager \<Rightarrow> string list \<Rightarrow> (error + 'task) \<times> 'task manager" where
  "create_jobs_for_step env self step_desciption =
     (case step_desciption of
        [] \<Rightarrow> (Inl IndexError, self)
      | prog_name # init_command \<Rightarrow>
          (case cli_class_inst env prog_name init_command of
             Inl e \<Rightarrow> (Inl e, self)
           | Inr inst \<Rightarrow>
               if \<not> list_all (path_exists (filesystem env)) (required_inputs inst)
               then (Inl WorkflowNextStepError, self)
               else
                 (case method_raises inst of
                    Some e \<Rightarrow> (Inl e, self)
                  | None \<Rightarrow>
                      let self' = self\<lparr>expected_outputs :=
                                         expected_outputs self @ [cli_expected_outputs inst]\<rparr>
                      in if ''init'' \<notin> set init_command then (Inl ValueError, self')
                         else
                           let submit_command =
                                 (if verbosity self > 0 then [''-v''] else [])
                                 @ takeWhile (\<lambda>a. a \<noteq> ''init'') init_command
                                 @ [''submit'']
                                 @ (if virtualenv self \<noteq> []
                                    then [''--virtualenv'', virtualenv self] else [])
                           in (case cli_class_inst env prog_name submit_command of
                                 Inl e \<Rightarrow> (Inl e, self')
                               | Inr inst' \<Rightarrow>
                                   (case jobs inst' of
                                      Inl e \<Rightarrow> (Inl e, self')
                                    | Inr task \<Rightarrow> (Inr task, self'))))))"

text \<open>
  \<open>_add_step\<close>: the exception it raises, if any, and the manager afterwards.
  \<open>self.expected_outputs[-1]\<close> raises \<open>IndexError\<close> on an empty list, and
  \<open>self.workflow_description[index]\<close> beyond the last step.
\<close>

definition add_step ::
  "'task environment \<Rightarrow> 'task manager \<Rightarrow> nat \<Rightarrow> error option \<times> 'task manager" where
  "add_step env self index =
     (if index > 0 \<and> expected_outputs self = [] then (Some IndexError, self)
      else if index > 0 \<and> \<not> list_all (path_exists (filesystem env)) (last (expected_outputs self))
      then (Some WorkflowNextStepError, self)
      else if \<not> index < length (workflow_description env) then (Some IndexError, self)
      else
        (case create_jobs_for_step env self (workflow_description env ! index) of
           (Inl e, self') \<Rightarrow> (Some e, self')
         | (Inr task, self') \<Rightarrow> (None, self'\<lparr>tasks := tasks self' @ [task]\<rparr>)))"

text \<open>Lines 164 to 169 of \<open>next\<close>: the state the base class gives, and what is made of it.\<close>

definition super_next_state ::
  "'task environment \<Rightarrow> 'task manager \<Rightarrow> nat \<Rightarrow> run_state \<times> 'task manager" where
  "super_next_state env self done_index =
     (let state = super_next env self done_index
      in if state = TERMINATED
         then (if stopped self then STOPPED else state, self\<lparr>exitcode := Some 0\<rparr>)
         else (state, self))"

text \<open>
  \<open>next\<close>, with \<open>done_index\<close> the zero-based index of the last processed step: the state
  it returns and the manager afterwards.  The handler \<open>except Exception\<close> catches every
  value of type \<open>error\<close>.
\<close>

definition workflow_next ::
  "'task environment \<Rightarrow> 'task manager \<Rightarrow> nat \<Rightarrow> run_state \<times> 'task manager" where
  "workflow_next env self done_index =
     (if done_index + 1 < length (workflow_description env) then
        (case add_step env self (done_index + 1) of
           (Some e, self') \<Rightarrow>
             (if stopped self' then STOPPED else TERMINATED, self'\<lparr>exitcode := Some 0\<rparr>)
         | (None, self') \<Rightarrow> super_next_state env self' done_index)
      else super_next_state env self done_index)"

text \<open>
  \<open>__init__\<close>: the manager it leaves, or the exception of \<open>_add_step(0)\<close>, which it does
  not catch.
\<close>

definition init :: "'task environment \<Rightarrow> string \<Rightarrow> int \<Rightarrow> error + 'task manager" where
  "init env venv verb =
     (case add_step env \<lparr>tasks = [], expected_outputs = [], exitcode = None, stopped = False,
                          virtualenv = venv, verbosity = verb\<rparr> 0 of
        (Some e, self) \<Rightarrow> Inl e
      | (None, self) \<Rightarrow> Inr self)"

section \<open>Concrete inputs\<close>

text \<open>A partitioner that returns no group at all for a batch size below one.\<close>

definition no_groups :: "'a list \<Rightarrow> int \<Rightarrow> 'a list list" where
  "no_groups li n = []"

text \<open>
  A file system with one module file, a pipeline description of three elements, the
  second inactive, and the handles of the three.
\<close>

definition os0 :: os_path where
  "os0 = \<lparr>expandvars = (\<lambda>s. s), expanduser = (\<lambda>s. s),
           path_exists = (\<lambda>s. s = ''/exp/lib/b.py'')\<rparr>"

definition description0 :: "pipeline_element list" where
  "description0 = [\<lparr>active = True, source = ''a.py''\<rparr>, \<lparr>active = False, source = ''x/y.py''\<rparr>,
                   \<lparr>active = True, source = ''lib/b.py''\<rparr>]"

definition handles0 :: "nat handles_entry list" where
  "handles0 = [\<lparr>handles_name = ''a'', handles_description = 10\<rparr>,
               \<lparr>handles_name = ''y'', handles_description = 20\<rparr>,
               \<lparr>handles_name = ''b'', handles_description = 30\<rparr>]"


definition mapobject_type_ids0 :: "string \<Rightarrow> nat" where
  "mapobject_type_ids0 obj_name = 7"

text \<open>
  A workflow of two steps; command line classes whose required input is missing, whose
  method raises a descriptor error, and which succeed; the base class's \<open>next\<close> as
  gc3libs has it; and a manager after its first step, running and stopped.
\<close>

definition cli_missing_input :: "string \<Rightarrow> string list \<Rightarrow> error + nat cli" where
  "cli_missing_input prog_name command =
     Inr \<lparr>required_inputs = [''/exp/metadata.json''], cli_expected_outputs = [''/exp/aligned''],
          method_raises = None, jobs = Inr 1\<rparr>"


definition cli_ok :: "string \<Rightarrow> string list \<Rightarrow> error + nat cli" where
  "cli_ok prog_name command =
     Inr \<lparr>required_inputs = [''/exp/images''], cli_expected_outputs = [''/exp/aligned''],
          method_raises = None, jobs = Inr 1\<rparr>"

definition super_next0 :: "nat manager \<Rightarrow> nat \<Rightarrow> run_state" where
  "super_next0 self done_index = (if done_index + 1 = length (tasks self) then TERMINATED else RUNNING)"

definition workflow0 :: "string list list" where
  "workflow0 = [[''metaextract'', ''/exp'', ''init''], [''align'', ''/exp'', ''init'', ''--batch_size'', ''5'']]"

definition env_missing_input :: "nat environment" where
  "env_missing_input =
     \<lparr>filesystem = \<lparr>expandvars = (\<lambda>s. s), expanduser = (\<lambda>s. s),
                     path_exists = (\<lambda>s. s = ''/exp/images'')\<rparr>,
      workflow_description = workflow0,
      cli_class_inst = cli_missing_input,
      super_next = super_next0\<rparr>"


definition env_ok :: "nat environment" where
  "env_ok =
     \<lparr>filesystem = \<lparr>expandvars = (\<lambda>s. s), expanduser = (\<lambda>s. s),
                     path_exists = (\<lambda>s. s = ''/exp/images'')\<rparr>,
      workflow_description = workflow0,
      cli_class_inst = cli_ok,
      super_next = super_next0\<rparr>"

definition manager0 :: "nat manager" where
  "manager0 = \<lparr>tasks = [0], expected_outputs = [[''/exp/images'']], exitcode = None,
               stopped = False, virtualenv = '''', verbosity = 0\<rparr>"


section \<open>Properties of the batches\<close>







text \<open>The scenario of the spec: five units and a batch size of two give three batches.\<close>

lemma five_units_batch_size_two:
  "map site_ids (fst (create_run_batches no_groups [1, 2, 3, 4, 5] False 2)) = [[1, 2], [3, 4], [5]]"
  by (simp add: create_run_batches_def create_batches.simps enumerate_eq_zip)

text \<open>
  Claim C5.  With the plot flag set and a batch size other than one,
  \<open>create_run_batches\<close> raises \<open>JobDescriptionError\<close> and has yielded no batch: the
  batch size is neither clamped nor coerced.
\<close>

theorem create_run_batches_plot_error:
  "args_plot \<Longrightarrow> args_batch_size \<noteq> 1 \<Longrightarrow>
   create_run_batches d U args_plot args_batch_size = ([], Some JobDescriptionError)"
  by (simp add: create_run_batches_def)

theorem create_run_batches_plot_error_witness:
  "True \<and> (3::int) \<noteq> 1 \<and> create_run_batches no_groups [4, 5, 6] True 3 = ([], Some JobDescriptionError)"
  using create_run_batches_plot_error [of True 3 no_groups "[4, 5, 6]"] by simp

section \<open>Properties of the pipeline\<close>

lemma pipeline_loop_iff:
  "pipeline_loop os loc hs ps acc = Inr p \<longleftrightarrow>
     (\<forall>(i, e) \<in> set ps. active e \<longrightarrow>
         i < length hs \<and> (\<exists>f. resolve_source os loc (source e) = Inr f))
     \<and> p = acc @ map (\<lambda>(i, e). \<lparr>m_name = handles_name (hs ! i),
                          m_source_file = projr (resolve_source os loc (source e)),
                          m_handles = handles_description (hs ! i)\<rparr>)
                (filter (\<lambda>(i, e). active e) ps)"
proof (induction ps arbitrary: acc)
  case Nil
  show ?case by auto
next
  case (Cons a ps)
  obtain i e where a: "a = (i, e)" by (cases a)
  show ?case
  proof (cases "active e")
    case False
    with a Cons.IH [of acc] show ?thesis by simp
  next
    case True
    show ?thesis
    proof (cases "resolve_source os loc (source e)")
      case (Inl err)
      with a True show ?thesis by auto
    next
      case (Inr f)
      show ?thesis
      proof (cases "i < length hs")
        case False
        with a True Inr show ?thesis by auto
      next
        case lt: True
        from a True Inr lt
          Cons.IH [of "acc @ [\<lparr>m_name = handles_name (hs ! i), m_source_file = f,
                                 m_handles = handles_description (hs ! i)\<rparr>]"]
        show ?thesis by simp
      qed
    qed
  qed
qed

text \<open>
  Claim C10.  The pipeline is built exactly when every active element has an entry of
  the handles at its own position and a source file that resolves, and then it holds
  one module for each active element, in the declared order and no module for an
  inactive one, each with the name and the handles description found at the position
  \<open>i\<close> that the element has in the full description.
\<close>

theorem pipeline_active_modules:
  "pipeline os loc description handles = Inr p \<longleftrightarrow>
     (\<forall>(i, e) \<in> set (enumerate 0 description). active e \<longrightarrow>
         i < length handles \<and> (\<exists>f. resolve_source os loc (source e) = Inr f))
     \<and> p = map (\<lambda>(i, e). \<lparr>m_name = handles_name (handles ! i),
                          m_source_file = projr (resolve_source os loc (source e)),
                          m_handles = handles_description (handles ! i)\<rparr>)
              (filter (\<lambda>(i, e). active e) (enumerate 0 description))"
  unfolding pipeline_def pipeline_loop_iff by simp


theorem pipeline_active_modules_witness:
  "pipeline os0 ''/exp'' description0 handles0 =
     Inr [\<lparr>m_name = ''a'', m_source_file = ''a.py'', m_handles = 10\<rparr>,
          \<lparr>m_name = ''b'', m_source_file = ''/exp/lib/b.py'', m_handles = 30\<rparr>]"
  using pipeline_active_modules [of os0 "''/exp''" description0 handles0
      "[\<lparr>m_name = ''a'', m_source_file = ''a.py'', m_handles = 10\<rparr>,
        \<lparr>m_name = ''b'', m_source_file = ''/exp/lib/b.py'', m_handles = 30\<rparr>]"]
  by (simp add: description0_def handles0_def os0_def resolve_source_def isabs_def path_join_def)


text \<open>An active element whose module file is missing: no pipeline is built.\<close>

lemma pipeline_missing_file:
  "pipeline os0 ''/exp'' [\<lparr>active = True, source = ''lib/c.py''\<rparr>] handles0 = Inl PipelineDescriptionError"
  by (simp add: pipeline_def handles0_def os0_def resolve_source_def isabs_def path_join_def)

section \<open>Properties of the aggregate feature names\<close>

text \<open>
  Claim C6 does not hold of the code.  The test at line 705 compares the statistic with
  \<open>count\<close>, and the key of the dictionary is \<open>Count\<close>: the count of the feature
  \<open>Area\<close> over the objects of type \<open>Cells\<close> is named \<open>Area_Cells_Count\<close>, with the
  source feature as prefix, like the other four statistics.
\<close>

theorem agg_feature_name_count:
  "agg_feature_names [''Area''] ''Cells'' =
     [''Area_Cells_Min'', ''Area_Cells_Max'', ''Area_Cells_Sum'', ''Area_Cells_Mean'',
      ''Area_Cells_Count'']"
  by (simp add: agg_feature_names_def agg_feature_name_def statistics_def)


lemma agg_feature_name_prefixed:
  "stat_name \<in> set statistics \<Longrightarrow>
   agg_feature_name stat_name fname type_name =
     fname @ ''_'' @ type_name @ ''_'' @ stat_name"
  by (auto simp: agg_feature_name_def statistics_def)

section \<open>Properties of the save phase\<close>

text \<open>
  Claim C7 does not hold of the code under Python's default equality.  The type
  \<open>Cells\<close> is a declared input and a declared output of the pipeline; saving the
  outputs for site 5 calls \<open>delete_cascade\<close> for it all the same, since the name is
  compared with the description objects and not with their names.
\<close>

theorem save_pipeline_outputs_deletes_input_type:
  "save_pipeline_outputs default_eq mapobject_type_ids0 [\<lparr>input_name = ''Cells''\<rparr>]
     [\<lparr>output_name = ''Cells'', as_polygons = True\<rparr>] 5
     [(''Cells'', \<lparr>save = False, represent_as_polygons = False, labels = [1, 2]\<rparr>)]
   = Inr [Mapobject_delete_cascade 7 5, Mapobject_add_multiple 7 2,
          MapobjectSegmentation_add_multiple 7, FeatureValues_add_multiple 7]"
  by (simp add: save_pipeline_outputs_def save_object_def name_in_inputs_def default_eq_def
      mapobject_type_ids0_def)


lemma save_object_default_eq_deletes:
  "Mapobject_delete_cascade (mapobject_type_ids obj_name) site_id
     \<in> set (save_object default_eq mapobject_type_ids inputs site_id (obj_name, segm_objs))"
  by (simp add: save_object_def name_in_inputs_def default_eq_def list_ex_iff)

text \<open>
  Had the name been compared with the names of the input descriptions, a declared input
  type would have been left alone.
\<close>

lemma save_object_name_eq_keeps:
  "d \<in> set inputs \<Longrightarrow> input_name d = obj_name \<Longrightarrow>
   Mapobject_delete_cascade t s
     \<notin> set (save_object (\<lambda>n d. n = input_name d) mapobject_type_ids inputs site_id
              (obj_name, segm_objs))"
  by (auto simp: save_object_def name_in_inputs_def list_ex_iff)

section \<open>Properties of the feature catalog\<close>






lemma key_next_id [simp]:
  "features_name_mapobject_type_id_key (conn\<lparr>next_id := k\<rparr>) = features_name_mapobject_type_id_key conn"
  by (simp add: features_name_mapobject_type_id_key_def)





section \<open>Properties of the workflow manager\<close>

text \<open>
  What \<open>_create_jobs_for_step\<close> and \<open>_add_step\<close> leave of the manager: the tasks, the
  stop flag and the exit code are kept and the expected outputs only grow; a manager that
  \<open>__init__\<close> returns has registered the expected outputs of its first step, and
  \<open>next\<close> never empties them.
\<close>

lemma create_jobs_for_step_cases:
  "(snd (create_jobs_for_step env self d) = self
      \<and> (\<exists>e. fst (create_jobs_for_step env self d) = Inl e))
   \<or> (\<exists>outs. snd (create_jobs_for_step env self d)
         = self\<lparr>expected_outputs := expected_outputs self @ [outs]\<rparr>)"
proof (cases d)
  case Nil
  then show ?thesis by (simp add: create_jobs_for_step_def)
next
  case (Cons prog_name init_command)
  show ?thesis
  proof (cases "cli_class_inst env prog_name init_command")
    case (Inl e)
    with Cons show ?thesis by (simp add: create_jobs_for_step_def)
  next
    case (Inr inst)
    show ?thesis
    proof (cases "list_all (path_exists (filesystem env)) (required_inputs inst)")
      case False
      with Cons Inr show ?thesis by (simp add: create_jobs_for_step_def)
    next
      case True
      show ?thesis
      proof (cases "method_raises inst")
        case (Some e)
        with Cons Inr True show ?thesis by (simp add: create_jobs_for_step_def)
      next
        case None
        let ?self' = "self\<lparr>expected_outputs := expected_outputs self @ [cli_expected_outputs inst]\<rparr>"
        have "snd (create_jobs_for_step env self d) = ?self'"
          using Cons Inr True None
          by (simp add: create_jobs_for_step_def Let_def split: sum.split)
        then show ?thesis by blast
      qed
    qed
  qed
qed

lemma create_jobs_for_step_frame:
  "tasks (snd (create_jobs_for_step env self d)) = tasks self
   \<and> stopped (snd (create_jobs_for_step env self d)) = stopped self
   \<and> exitcode (snd (create_jobs_for_step env self d)) = exitcode self
   \<and> (\<exists>new. expected_outputs (snd (create_jobs_for_step env self d)) = expected_outputs self @ new)"
  using create_jobs_for_step_cases [of env self d] by auto

lemma create_jobs_for_step_success:
  "fst (create_jobs_for_step env self d) = Inr task \<Longrightarrow>
   expected_outputs (snd (create_jobs_for_step env self d)) \<noteq> []"
  using create_jobs_for_step_cases [of env self d] by auto

lemma add_step_frame:
  "stopped (snd (add_step env self index)) = stopped self
   \<and> exitcode (snd (add_step env self index)) = exitcode self
   \<and> (\<exists>new. expected_outputs (snd (add_step env self index)) = expected_outputs self @ new)"
proof -
  obtain r self' where c: "create_jobs_for_step env self (workflow_description env ! index) = (r, self')"
    by (cases "create_jobs_for_step env self (workflow_description env ! index)")
  from create_jobs_for_step_frame [of env self "workflow_description env ! index"] c
  show ?thesis
    by (cases r) (auto simp: add_step_def)
qed


lemma add_step_success:
  "fst (add_step env self index) = None \<Longrightarrow>
   expected_outputs (snd (add_step env self index)) \<noteq> []
   \<and> length (tasks (snd (add_step env self index))) = Suc (length (tasks self))"
proof -
  assume f: "fst (add_step env self index) = None"
  obtain r self' where c: "create_jobs_for_step env self (workflow_description env ! index) = (r, self')"
    by (cases "create_jobs_for_step env self (workflow_description env ! index)")
  from create_jobs_for_step_frame [of env self "workflow_description env ! index"]
    create_jobs_for_step_success [of env self "workflow_description env ! index"] c f
  show ?thesis
    by (cases r) (auto simp: add_step_def split: if_splits)
qed

lemma init_expected_outputs:
  "init env venv verb = Inr self \<Longrightarrow> expected_outputs self \<noteq> [] \<and> length (tasks self) = 1"
proof -
  let ?s = "\<lparr>tasks = [], expected_outputs = [], exitcode = None, stopped = False,
              virtualenv = venv, verbosity = verb\<rparr>"
  assume i: "init env venv verb = Inr self"
  obtain r s' where a: "add_step env ?s 0 = (r, s')" by (cases "add_step env ?s 0")
  with i have "r = None" and "s' = self" by (auto simp: init_def split: option.splits)
  with a add_step_success [of env ?s 0] show ?thesis by simp
qed

lemma super_next_state_frame:
  "expected_outputs (snd (super_next_state env self d)) = expected_outputs self
   \<and> tasks (snd (super_next_state env self d)) = tasks self"
  by (simp add: super_next_state_def Let_def)

lemma workflow_next_expected_outputs:
  "expected_outputs self \<noteq> [] \<Longrightarrow> expected_outputs (snd (workflow_next env self d)) \<noteq> []"
proof -
  assume n: "expected_outputs self \<noteq> []"
  obtain r s' where a: "add_step env self (d + 1) = (r, s')" by (cases "add_step env self (d + 1)")
  from add_step_frame [of env self "d + 1"] a n have "expected_outputs s' \<noteq> []" by auto
  with a n show ?thesis
    by (cases r) (auto simp: workflow_next_def super_next_state_frame)
qed

text \<open>
  Claim C2.  Let step \<open>done_index + 1\<close> be within the workflow and the manager hold the
  expected outputs of an earlier step.  If one of the expected outputs registered last
  is missing, or if the command line class of the step is instantiated and one of its
  required inputs is missing, then \<open>_add_step\<close> raises \<open>WorkflowNextStepError\<close> and
  leaves the manager as it was, \<open>next\<close> returns \<open>STOPPED\<close> or \<open>TERMINATED\<close>, and the
  task list is the one before the call: no job collection is appended.
\<close>

theorem next_step_missing_inputs:
  assumes "done_index + 1 < length (workflow_description env)"
    and "expected_outputs self \<noteq> []"
    and "(\<exists>f \<in> set (last (expected_outputs self)). \<not> path_exists (filesystem env) f)
       \<or> (\<exists>prog_name init_command inst.
             workflow_description env ! (done_index + 1) = prog_name # init_command
             \<and> cli_class_inst env prog_name init_command = Inr inst
             \<and> (\<exists>i \<in> set (required_inputs inst). \<not> path_exists (filesystem env) i))"
  shows "add_step env self (done_index + 1) = (Some WorkflowNextStepError, self)
     \<and> fst (workflow_next env self done_index) \<in> {STOPPED, TERMINATED}
     \<and> snd (workflow_next env self done_index) = self\<lparr>exitcode := Some 0\<rparr>
     \<and> tasks (snd (workflow_next env self done_index)) = tasks self"
proof -
  have a: "add_step env self (done_index + 1) = (Some WorkflowNextStepError, self)"
  proof (cases "list_all (path_exists (filesystem env)) (last (expected_outputs self))")
    case False
    with assms(2) show ?thesis by (simp add: add_step_def)
  next
    case True
    with assms(3) obtain prog_name init_command inst where
      d: "workflow_description env ! (done_index + 1) = prog_name # init_command"
      and c: "cli_class_inst env prog_name init_command = Inr inst"
      and m: "\<not> list_all (path_exists (filesystem env)) (required_inputs inst)"
      by (auto simp: list_all_iff)
    from d c m have "create_jobs_for_step env self (workflow_description env ! (done_index + 1))
        = (Inl WorkflowNextStepError, self)"
      by (simp add: create_jobs_for_step_def)
    with True assms(1,2) show ?thesis by (simp add: add_step_def)
  qed
  with assms(1) show ?thesis by (simp add: workflow_next_def)
qed


theorem next_step_missing_inputs_witness:
  "(0::nat) + 1 < length (workflow_description env_missing_input)
   \<and> expected_outputs manager0 \<noteq> []
   \<and> add_step env_missing_input manager0 (0 + 1) = (Some WorkflowNextStepError, manager0)
   \<and> fst (workflow_next env_missing_input manager0 0) \<in> {STOPPED, TERMINATED}
   \<and> tasks (snd (workflow_next env_missing_input manager0 0)) = tasks manager0"
proof -
  have h1: "(0::nat) + 1 < length (workflow_description env_missing_input)"
    by (simp add: env_missing_input_def workflow0_def)
  have h2: "expected_outputs manager0 \<noteq> []"
    by (simp add: manager0_def)
  have "workflow_description env_missing_input ! (0 + 1)
          = ''align'' # [''/exp'', ''init'', ''--batch_size'', ''5'']
      \<and> cli_class_inst env_missing_input ''align'' [''/exp'', ''init'', ''--batch_size'', ''5'']
          = Inr \<lparr>required_inputs = [''/exp/metadata.json''],
                 cli_expected_outputs = [''/exp/aligned''], method_raises = None, jobs = Inr 1\<rparr>
      \<and> \<not> path_exists (filesystem env_missing_input) ''/exp/metadata.json''"
    by (simp add: env_missing_input_def workflow0_def cli_missing_input_def)
  then have h3: "(\<exists>f \<in> set (last (expected_outputs manager0)).
                    \<not> path_exists (filesystem env_missing_input) f)
       \<or> (\<exists>prog_name init_command inst.
             workflow_description env_missing_input ! (0 + 1) = prog_name # init_command
             \<and> cli_class_inst env_missing_input prog_name init_command = Inr inst
             \<and> (\<exists>i \<in> set (required_inputs inst). \<not> path_exists (filesystem env_missing_input) i))"
    by (intro disjI2 exI [of _ "''align''"] exI [of _ "[''/exp'', ''init'', ''--batch_size'', ''5'']"]
        exI [of _ "\<lparr>required_inputs = [''/exp/metadata.json''],
                 cli_expected_outputs = [''/exp/aligned''], method_raises = None, jobs = Inr 1\<rparr>"])
       simp
  from next_step_missing_inputs [OF h1 h2 h3] h1 h2 show ?thesis by blast
qed












text \<open>With every input in place the second step is added and the workflow keeps running.\<close>

lemma next_advances:
  "workflow_next env_ok manager0 0 =
     (RUNNING, manager0\<lparr>expected_outputs := [[''/exp/images''], [''/exp/aligned'']],
                        tasks := [0, 1]\<rparr>)"
  by (simp add: workflow_next_def add_step_def create_jobs_for_step_def env_ok_def
      workflow0_def cli_ok_def manager0_def super_next_state_def super_next0_def)


end
